theory Spec2Isabelle
  imports Main "HOL-Library.AList" "HOL-Library.List_Lexorder"
begin

section \<open>The fetch cache engine of content\_fetcher.py\<close>

text \<open>
  The class \<^verbatim>\<open>ContentFetcher\<close> keeps two dictionaries, \<^verbatim>\<open>successful_cache\<close> and
  \<^verbatim>\<open>bad_request_cache\<close>, keyed by \<^verbatim>\<open>json.dumps((url, sorted(params.items())))\<close>, and
  writes both to one JSON file. The model below passes the object, the file, the log, the
  number of clock reads and the requests sent as one explicit state. What the outside
  world answers (the clock, the file system, the HTTP response, the HTML parser) is an
  input of each operation.
\<close>

subsection \<open>Python values\<close>

text \<open>
  A Python \<^verbatim>\<open>str\<close> is a sequence of code points, so it is a list of naturals here;
  \<open>lit\<close> turns a literal into one. Comparison of \<^verbatim>\<open>str\<close> is lexicographic on code
  points, which is the order on lists of \<^verbatim>\<open>HOL-Library.List_Lexorder\<close>.
\<close>

type_synonym pystr = "nat list"

definition lit :: "string \<Rightarrow> pystr" where
  "lit s = map of_char s"

text \<open>
  The values of the \<^verbatim>\<open>params\<close> dictionary: the callers pass strings
  (\<^verbatim>\<open>{"ajax": "true"}\<close>) and integers (\<^verbatim>\<open>{"page_num": page_number}\<close>). A dictionary is
  an association list in insertion order whose keys are distinct.
\<close>

datatype pval = PStr pystr | PInt int

type_synonym params = "(pystr \<times> pval) list"

text \<open>A decoded JSON document, as \<^verbatim>\<open>response.json()\<close> returns it (floats left out).\<close>

datatype json = JNull | JBool bool | JInt int | JStr pystr
  | JArr "json list" | JObj "(pystr \<times> json) list"

text \<open>
  What \<^verbatim>\<open>fetch_content\<close> hands back: \<open>Soup s\<close> stands for the document tree
  \<^verbatim>\<open>bs(s, 'html.parser')\<close>, \<open>Plain v\<close> for the Python value \<open>v\<close> itself.
\<close>

datatype content = Soup pystr | Plain json

type_synonym timestamp = int

subsection \<open>The cache key: json.dumps of (url, sorted(params.items()))\<close>

text \<open>
  \<^verbatim>\<open>json.dumps\<close> escapes a string with \<^verbatim>\<open>ensure_ascii\<close> on: printable ASCII stays,
  the quote, the backslash and five control characters get a short escape, every other
  code point below \<open>0x10000\<close> becomes \<^verbatim>\<open>\uXXXX\<close> (lower-case hex) and a code point
  from \<open>0x10000\<close> on becomes a pair of surrogates
  \<^verbatim>\<open>0xd800 | ((n >> 10) & 0x3ff)\<close>, \<^verbatim>\<open>0xdc00 | (n & 0x3ff)\<close> with
  \<^verbatim>\<open>n = c - 0x10000\<close>. The shift is a division by 1024 and the mask a remainder; the
  bits of the two operands of each \<^verbatim>\<open>|\<close> are disjoint, so it is a sum.
\<close>

definition hexdigit :: "nat \<Rightarrow> nat" where
  "hexdigit d = (if d < 10 then 48 + d else 87 + d)"

definition hex4 :: "nat \<Rightarrow> pystr" where
  "hex4 n = [hexdigit (n div 4096 mod 16), hexdigit (n div 256 mod 16),
             hexdigit (n div 16 mod 16), hexdigit (n mod 16)]"

definition u_escape :: "nat \<Rightarrow> pystr" where
  "u_escape n = [92, 117] @ hex4 n"

definition high_surrogate :: "nat \<Rightarrow> nat" where
  "high_surrogate c = 55296 + (c - 65536) div 1024 mod 1024"

definition low_surrogate :: "nat \<Rightarrow> nat" where
  "low_surrogate c = 56320 + (c - 65536) mod 1024"

text \<open>
  The short escapes, \<^verbatim>\<open>ESCAPE_DCT\<close> of \<^verbatim>\<open>json.encoder\<close>: the character that follows
  the backslash.
\<close>

definition escape_dct :: "nat \<Rightarrow> nat option" where
  "escape_dct c =
     (if c = 92 then Some 92
      else if c = 34 then Some 34
      else if c = 8 then Some 98
      else if c = 12 then Some 102
      else if c = 10 then Some 110
      else if c = 13 then Some 114
      else if c = 9 then Some 116
      else None)"

definition escape_char :: "nat \<Rightarrow> pystr" where
  "escape_char c =
     (case escape_dct c of
        Some x \<Rightarrow> [92, x]
      | None \<Rightarrow>
          if 32 \<le> c \<and> c \<le> 126 then [c]
          else if c < 65536 then u_escape c
          else u_escape (high_surrogate c) @ u_escape (low_surrogate c))"

definition dumps_str :: "pystr \<Rightarrow> pystr" where
  "dumps_str s = [34] @ concat (map escape_char s) @ [34]"

fun digits :: "nat \<Rightarrow> pystr" where
  "digits n = (if n < 10 then [48 + n] else digits (n div 10) @ [48 + n mod 10])"

declare digits.simps [simp del]

definition dumps_int :: "int \<Rightarrow> pystr" where
  "dumps_int i = (if i < 0 then 45 # digits (nat (- i)) else digits (nat i))"

fun dumps_val :: "pval \<Rightarrow> pystr" where
  "dumps_val (PStr s) = dumps_str s"
| "dumps_val (PInt i) = dumps_int i"

text \<open>A list is written with the separator \<^verbatim>\<open>", "\<close> between its elements.\<close>

fun join :: "pystr list \<Rightarrow> pystr" where
  "join [] = []"
| "join [x] = x"
| "join (x # y # ys) = x @ [44, 32] @ join (y # ys)"

definition dumps_list :: "pystr list \<Rightarrow> pystr" where
  "dumps_list xs = [91] @ join xs @ [93]"

definition dumps_item :: "pystr \<times> pval \<Rightarrow> pystr" where
  "dumps_item kv = dumps_list [dumps_str (fst kv), dumps_val (snd kv)]"

text \<open>
  \<^verbatim>\<open>sorted(params.items())\<close> is a stable sort of the (name, value) pairs. Two items of
  one dictionary never have the same name, so the comparison of two pairs is decided by
  the names: the sort is the stable sort on the first component.
\<close>

definition sorted_items :: "params \<Rightarrow> params" where
  "sorted_items ps = sort_key fst ps"

definition cache_key :: "pystr \<Rightarrow> params \<Rightarrow> pystr" where
  "cache_key url ps =
     dumps_list [dumps_str url, dumps_list (map dumps_item (sorted_items ps))]"

subsection \<open>The store\<close>

record success_entry =
  s_url :: pystr
  s_params :: params
  s_first_request :: timestamp
  s_last_request :: timestamp
  s_data :: json

record failure_entry =
  f_url :: pystr
  f_params :: params
  f_last_request :: timestamp
  f_error :: pystr
  f_first_request :: timestamp

text \<open>
  A Python dictionary keeps insertion order, assignment to a present key keeps its place
  and assignment to a new key appends: \<open>AList.update\<close>. \<^verbatim>\<open>del d[k]\<close> is
  \<open>AList.delete\<close>.
\<close>

type_synonym successes = "(pystr \<times> success_entry) list"
type_synonym failures = "(pystr \<times> failure_entry) list"

definition has_key :: "('k \<times> 'v) list \<Rightarrow> 'k \<Rightarrow> bool" where
  "has_key d k = (map_of d k \<noteq> None)"

text \<open>The cache file: missing, not parseable as JSON, or holding both tables.\<close>

datatype file_state = Absent | Corrupt | Stored successes failures

record fetcher =
  successful_cache :: successes
  bad_request_cache :: failures
  cache_file :: file_state
  log :: "pystr list"
  ticks :: nat
  writes :: nat
  sent :: "(pystr \<times> params) list"

text \<open>
  The outside world: \<open>clock n\<close> is what the \<open>n\<close>-th call of \<^verbatim>\<open>time.time()\<close> returns,
  \<open>disk n\<close> is how the \<open>n\<close>-th attempt to write the cache file ends, and \<open>parser s\<close>
  is what \<^verbatim>\<open>BeautifulSoup(s, 'html.parser')\<close> does with the markup \<open>s\<close>: \<open>None\<close> when it
  builds the tree, \<open>Some m\<close> when it raises, with \<open>m\<close> the text of the exception (the
  parser of the standard library rejects some markup).
\<close>

datatype write_outcome = Written | OpenFailed | DumpFailed

record env =
  clock :: "nat \<Rightarrow> timestamp"
  disk :: "nat \<Rightarrow> write_outcome"
  parser :: "pystr \<Rightarrow> pystr option"

definition time_time :: "env \<Rightarrow> fetcher \<Rightarrow> timestamp \<times> fetcher" where
  "time_time e st = (clock e (ticks st), st\<lparr>ticks := Suc (ticks st)\<rparr>)"

definition logger :: "pystr \<Rightarrow> fetcher \<Rightarrow> fetcher" where
  "logger msg st = st\<lparr>log := log st @ [msg]\<rparr>"

text \<open>\<^verbatim>\<open>bs(s, 'html.parser')\<close>: the tree, or the text of the exception.\<close>

definition bs :: "env \<Rightarrow> pystr \<Rightarrow> pystr + content" where
  "bs e s = (case parser e s of None \<Rightarrow> Inr (Soup s) | Some m \<Rightarrow> Inl m)"

text \<open>
  \<^verbatim>\<open>save_cache_to_file\<close>: both tables are dumped over the old file. Any exception is
  logged and swallowed; when \<^verbatim>\<open>open\<close> fails the file is as before, when the dump fails
  after \<^verbatim>\<open>open(..., 'w')\<close> has truncated the file, what is left is not a JSON document.
\<close>

definition save_cache_to_file :: "env \<Rightarrow> fetcher \<Rightarrow> fetcher" where
  "save_cache_to_file e st =
     (let st1 = st\<lparr>writes := Suc (writes st)\<rparr> in
      case disk e (writes st) of
        Written \<Rightarrow> st1\<lparr>cache_file := Stored (successful_cache st) (bad_request_cache st)\<rparr>
      | OpenFailed \<Rightarrow> logger (lit ''An error occurred while saving cache to file'') st1
      | DumpFailed \<Rightarrow>
          logger (lit ''An error occurred while saving cache to file'')
            (st1\<lparr>cache_file := Corrupt\<rparr>))"

text \<open>\<^verbatim>\<open>load_cache_from_file\<close>: a missing or broken file leaves the tables as they are.\<close>

definition load_cache_from_file :: "fetcher \<Rightarrow> fetcher" where
  "load_cache_from_file st =
     (case cache_file st of
        Stored s b \<Rightarrow> st\<lparr>successful_cache := s, bad_request_cache := b\<rparr>
      | Absent \<Rightarrow> logger (lit ''Cache file not found. Starting with empty cache.'') st
      | Corrupt \<Rightarrow> logger (lit ''Error decoding cache file. Starting with empty cache.'') st)"

text \<open>\<^verbatim>\<open>__init__\<close>: two empty tables, then the load.\<close>

definition init :: "file_state \<Rightarrow> fetcher" where
  "init f = load_cache_from_file
     \<lparr>successful_cache = [], bad_request_cache = [], cache_file = f, log = [],
      ticks = 0, writes = 0, sent = []\<rparr>"

subsection \<open>Errors\<close>

text \<open>
  \<open>error\<close> is what leaves \<^verbatim>\<open>fetch_content\<close>: the \<^verbatim>\<open>ValueError\<close> of
  \<^verbatim>\<open>_handle_error_and_cache\<close>, and the exception of the parser where it is called outside
  the \<^verbatim>\<open>try\<close> block (line 65). \<open>exn\<close> is what is raised inside the \<^verbatim>\<open>try\<close> block,
  by the \<^verbatim>\<open>except\<close> clause that catches it, with the text of \<^verbatim>\<open>str(e)\<close>; a
  \<^verbatim>\<open>ValueError\<close> and an exception of the parser are caught by \<^verbatim>\<open>except Exception\<close>.
\<close>

datatype error = ValueError pystr | ParserRejectedMarkup pystr

datatype exn = ClientError pystr | TimeoutError | Exception pystr

text \<open>\<^verbatim>\<open>str(e)\<close>\<close>

fun error_text :: "error \<Rightarrow> pystr" where
  "error_text (ValueError m) = m"
| "error_text (ParserRejectedMarkup m) = m"

text \<open>
  \<^verbatim>\<open>_handle_error_and_cache\<close>. The entry is built with \<^verbatim>\<open>'last_request': time.time()\<close>
  first; \<^verbatim>\<open>first_request\<close> is taken from the old entry, or from a second clock read.
\<close>

definition handle_error_and_cache ::
  "env \<Rightarrow> pystr \<Rightarrow> pystr \<Rightarrow> params \<Rightarrow> pystr \<Rightarrow> bool \<Rightarrow> fetcher \<Rightarrow> (error + unit) \<times> fetcher" where
  "handle_error_and_cache e key url ps error_message ignore_bad_request st =
     (if \<not> ignore_bad_request then
        let (t_last, st1) = time_time e st;
            (t_first, st2) =
               (case map_of (bad_request_cache st1) key of
                  Some old \<Rightarrow> (f_first_request old, st1)
                | None \<Rightarrow> time_time e st1);
            entry = \<lparr>f_url = url, f_params = ps, f_last_request = t_last,
                     f_error = error_message, f_first_request = t_first\<rparr>;
            st3 = st2\<lparr>bad_request_cache := AList.update key entry (bad_request_cache st2)\<rparr>
        in (Inl (ValueError error_message), save_cache_to_file e st3)
      else (Inr (), logger error_message st))"

subsection \<open>The HTTP exchange\<close>

text \<open>
  What \<^verbatim>\<open>session.get\<close> gives: an exception before any response, or a response with its
  status, the text \<^verbatim>\<open>str(e)\<close> of the error \<^verbatim>\<open>raise_for_status()\<close> raises for it, the
  \<^verbatim>\<open>Content-Type\<close> header (empty when absent), what \<^verbatim>\<open>response.text()\<close> returns or
  raises, and what \<^verbatim>\<open>response.json()\<close> returns or raises. The decoding of the body is
  the client library's: \<open>json_body r\<close> is its outcome, whatever the bytes of the body.
\<close>

record response =
  status :: nat
  status_error :: pystr
  content_type :: pystr
  text_body :: "exn + pystr"
  json_body :: "exn + json"

datatype net = NoResponse exn | Replied response

text \<open>
  \<^verbatim>\<open>str.lower()\<close> on the header: the ASCII capitals. (No other code point lowers to a
  sequence that can take part in a match of the two media types tested below.)
\<close>

definition lower :: "pystr \<Rightarrow> pystr" where
  "lower s = map (\<lambda>c. if 65 \<le> c \<and> c \<le> 90 then c + 32 else c) s"

fun starts_with :: "pystr \<Rightarrow> pystr \<Rightarrow> bool" where
  "starts_with [] s = True"
| "starts_with (x # xs) [] = False"
| "starts_with (x # xs) (c # s) = (x = c \<and> starts_with xs s)"

text \<open>\<^verbatim>\<open>needle in s\<close>\<close>

fun contains :: "pystr \<Rightarrow> pystr \<Rightarrow> bool" where
  "contains needle [] = (needle = [])"
| "contains needle (c # s) = (starts_with needle (c # s) \<or> contains needle s)"

text \<open>
  The two places that store a fresh success entry: \<^verbatim>\<open>first_request\<close> and
  \<^verbatim>\<open>last_request\<close> are two clock reads, in this order; the failure entry of the key is
  deleted; the file is written.
\<close>

definition store_success :: "env \<Rightarrow> pystr \<Rightarrow> pystr \<Rightarrow> params \<Rightarrow> json \<Rightarrow> fetcher \<Rightarrow> fetcher" where
  "store_success e key url ps d st =
     (let (t_first, st1) = time_time e st;
          (t_last, st2) = time_time e st1;
          entry = \<lparr>s_url = url, s_params = ps, s_first_request = t_first,
                   s_last_request = t_last, s_data = d\<rparr>;
          st3 = st2\<lparr>successful_cache := AList.update key entry (successful_cache st2)\<rparr>;
          st4 = (if has_key (bad_request_cache st3) key
                 then st3\<lparr>bad_request_cache := AList.delete key (bad_request_cache st3)\<rparr>
                 else st3)
      in save_cache_to_file e st4)"

text \<open>
  A call of \<^verbatim>\<open>_handle_error_and_cache\<close> inside the \<^verbatim>\<open>try\<close> block: its \<^verbatim>\<open>ValueError\<close>
  is an exception of the block; when it returns, the block falls through and the
  function returns \<^verbatim>\<open>None\<close>.
\<close>

definition fault_in_try ::
  "env \<Rightarrow> pystr \<Rightarrow> pystr \<Rightarrow> params \<Rightarrow> pystr \<Rightarrow> bool \<Rightarrow> fetcher
     \<Rightarrow> (exn + content option) \<times> fetcher" where
  "fault_in_try e key url ps msg ignore_bad_request st =
     (case handle_error_and_cache e key url ps msg ignore_bad_request st of
        (Inl err, st') \<Rightarrow> (Inl (Exception (error_text err)), st')
      | (Inr u, st') \<Rightarrow> (Inr None, st'))"

text \<open>
  The coroutine \<^verbatim>\<open>_fetch_with_session\<close> is suspended where it awaits: in
  \<^verbatim>\<open>session.get\<close>, in \<^verbatim>\<open>response.text()\<close> or \<^verbatim>\<open>response.json()\<close>, and where
  it leaves the \<^verbatim>\<open>async with\<close> block, on an exception before the \<^verbatim>\<open>except\<close>
  clause runs. Between two suspensions it runs alone; while it is suspended, other
  fetches of the same engine run. It reads and writes the tables up to
  \<^verbatim>\<open>session.get\<close>, then after the last \<^verbatim>\<open>await\<close> of its branch, then in the
  \<^verbatim>\<open>except\<close> clause, so on the shared state a call is at most three atomic steps:
  the part up to the request, the part of the \<^verbatim>\<open>try\<close> block after the response,
  and the \<^verbatim>\<open>except\<close> clause.

  The first part, lines 69 to 75. The test
  \<^verbatim>\<open>not ignore_bad_request and cache_key in self.bad_request_cache\<close> and the lookup
  that follows it are one \<open>case\<close>; the request is appended to \<open>sent\<close> where
  \<^verbatim>\<open>session.get\<close> is called.
\<close>

definition before_request ::
  "env \<Rightarrow> pystr \<Rightarrow> pystr \<Rightarrow> params \<Rightarrow> bool \<Rightarrow> fetcher \<Rightarrow> (exn + unit) \<times> fetcher" where
  "before_request e key url ps ignore_bad_request st =
     (case (if ignore_bad_request then None else map_of (bad_request_cache st) key) of
        Some entry \<Rightarrow>
          let (t, st1) = time_time e st;
              st2 = st1\<lparr>bad_request_cache :=
                       AList.update key (entry\<lparr>f_last_request := t\<rparr>) (bad_request_cache st1)\<rparr>;
              st3 = logger (lit ''Ignoring request due to previous failure: '' @ key) st2
          in (Inl (Exception (lit ''Request was previously marked as bad: '' @ key)), st3)
      | None \<Rightarrow> (Inr (), st\<lparr>sent := sent st @ [(url, ps)]\<rparr>))"

text \<open>
  The second part, lines 75 to 110, once the response is there and its body is read. In
  the HTML branch the entry is stored and the file written before the markup is parsed
  for the return value (line 90), so an exception of the parser leaves the entry stored.
\<close>

definition after_response ::
  "env \<Rightarrow> net \<Rightarrow> pystr \<Rightarrow> pystr \<Rightarrow> params \<Rightarrow> bool \<Rightarrow> fetcher
     \<Rightarrow> (exn + content option) \<times> fetcher" where
  "after_response e nw key url ps ignore_bad_request st =
     (case nw of
        NoResponse x \<Rightarrow> (Inl x, st)
      | Replied r \<Rightarrow>
          if 400 \<le> status r then (Inl (ClientError (status_error r)), st)
          else if contains (lit ''text/html'') (lower (content_type r)) then
            (case text_body r of
               Inl x \<Rightarrow> (Inl x, st)
             | Inr html_content \<Rightarrow>
                 if html_content \<noteq> [] then
                   (let st1 = store_success e key url ps (JStr html_content) st in
                    case bs e html_content of
                      Inr tree \<Rightarrow> (Inr (Some tree), st1)
                    | Inl m \<Rightarrow> (Inl (Exception m), st1))
                 else
                   fault_in_try e key url ps
                     (lit ''Empty HTML content received from '' @ url)
                     ignore_bad_request st)
          else if contains (lit ''application/json'') (lower (content_type r)) then
            (case json_body r of
               Inl x \<Rightarrow> (Inl x, st)
             | Inr json_content \<Rightarrow>
                 (Inr (Some (Plain json_content)),
                  store_success e key url ps json_content st))
          else
            fault_in_try e key url ps
              (lit ''Unexpected content type '' @ [39] @ content_type r @ [39]
                 @ lit '' received from '' @ url)
              ignore_bad_request st)"

text \<open>The whole \<^verbatim>\<open>try\<close> block, when nothing else runs in between.\<close>

definition try_block ::
  "env \<Rightarrow> net \<Rightarrow> pystr \<Rightarrow> pystr \<Rightarrow> params \<Rightarrow> bool \<Rightarrow> fetcher
     \<Rightarrow> (exn + content option) \<times> fetcher" where
  "try_block e nw key url ps ignore_bad_request st =
     (case before_request e key url ps ignore_bad_request st of
        (Inl x, st') \<Rightarrow> (Inl x, st')
      | (Inr u, st') \<Rightarrow> after_response e nw key url ps ignore_bad_request st')"

text \<open>The three \<^verbatim>\<open>except\<close> clauses: the message each one builds.\<close>

fun error_message_of :: "exn \<Rightarrow> pystr \<Rightarrow> pystr" where
  "error_message_of (ClientError m) url =
     lit ''An error occurred during HTTP request: '' @ m @ lit '' received from '' @ url"
| "error_message_of TimeoutError url = lit ''Request timed out for URL: '' @ url"
| "error_message_of (Exception m) url =
     lit ''An unexpected error occurred: '' @ m @ lit '' received from '' @ url"

text \<open>
  The \<^verbatim>\<open>except\<close> clauses applied to the outcome of a part of the block. \<open>Inl\<close> is the
  exception that reaches the caller, \<open>Inr None\<close> the return of \<^verbatim>\<open>None\<close>.
\<close>

definition except_clauses ::
  "env \<Rightarrow> pystr \<Rightarrow> pystr \<Rightarrow> params \<Rightarrow> bool \<Rightarrow> (exn + content option) \<times> fetcher
     \<Rightarrow> (error + content option) \<times> fetcher" where
  "except_clauses e key url ps ignore_bad_request blk =
     (case blk of
        (Inr r, st') \<Rightarrow> (Inr r, st')
      | (Inl x, st') \<Rightarrow>
          (case handle_error_and_cache e key url ps (error_message_of x url)
                  ignore_bad_request st' of
             (Inl err, st'') \<Rightarrow> (Inl err, st'')
           | (Inr u, st'') \<Rightarrow> (Inr None, st'')))"

text \<open>
  The read of a success entry, line 65, outside the \<^verbatim>\<open>try\<close> block:
  \<^verbatim>\<open>bs(entry['data'], 'html.parser') if isinstance(entry['data'], str) else entry['data']\<close>.
\<close>

definition cached_content :: "env \<Rightarrow> json \<Rightarrow> error + content option" where
  "cached_content e d =
     (case d of
        JStr s \<Rightarrow> (case bs e s of Inr tree \<Rightarrow> Inr (Some tree) | Inl m \<Rightarrow> Inl (ParserRejectedMarkup m))
      | _ \<Rightarrow> Inr (Some (Plain d)))"

text \<open>
  The first atomic step of \<^verbatim>\<open>_fetch_with_session\<close>, lines 59 to 75: \<open>Some\<close> is the end
  of the call (a read of the success table, or the fault of a key in the failure table),
  \<open>None\<close> the suspension in \<^verbatim>\<open>session.get\<close>. The test
  \<^verbatim>\<open>not force_refresh and cache_key in self.successful_cache\<close> and the lookup that
  follows it are one \<open>case\<close>.
\<close>

definition fetch_start ::
  "env \<Rightarrow> pystr \<Rightarrow> params \<Rightarrow> bool \<Rightarrow> bool \<Rightarrow> fetcher
     \<Rightarrow> (error + content option) option \<times> fetcher" where
  "fetch_start e url ps force_refresh ignore_bad_request st =
     (let key = cache_key url ps in
      case (if force_refresh then None else map_of (successful_cache st) key) of
        Some entry \<Rightarrow>
          let (t, st1) = time_time e st;
              st2 = st1\<lparr>successful_cache :=
                       AList.update key (entry\<lparr>s_last_request := t\<rparr>) (successful_cache st1)\<rparr>
          in (Some (cached_content e (s_data entry)), st2)
      | None \<Rightarrow>
          (case before_request e key url ps ignore_bad_request st of
             (Inl x, st') \<Rightarrow>
               (case except_clauses e key url ps ignore_bad_request (Inl x, st') of
                  (r, st'') \<Rightarrow> (Some r, st''))
           | (Inr u, st') \<Rightarrow> (None, st')))"

text \<open>
  The rest of the call, from the state it finds then: the second step and, on an
  exception, the third, with nothing else in between.
\<close>

definition fetch_resume ::
  "env \<Rightarrow> net \<Rightarrow> pystr \<Rightarrow> params \<Rightarrow> bool \<Rightarrow> fetcher
     \<Rightarrow> (error + content option) \<times> fetcher" where
  "fetch_resume e nw url ps ignore_bad_request st =
     except_clauses e (cache_key url ps) url ps ignore_bad_request
       (after_response e nw (cache_key url ps) url ps ignore_bad_request st)"

text \<open>\<^verbatim>\<open>_fetch_with_session\<close>, run with no other fetch in between its steps.\<close>

definition fetch_with_session ::
  "env \<Rightarrow> net \<Rightarrow> pystr \<Rightarrow> params \<Rightarrow> bool \<Rightarrow> bool \<Rightarrow> fetcher
     \<Rightarrow> (error + content option) \<times> fetcher" where
  "fetch_with_session e nw url ps force_refresh ignore_bad_request st =
     (case fetch_start e url ps force_refresh ignore_bad_request st of
        (Some r, st') \<Rightarrow> (r, st')
      | (None, st') \<Rightarrow> fetch_resume e nw url ps ignore_bad_request st')"

text \<open>
  \<^verbatim>\<open>fetch_content\<close>: the tables are dictionaries from \<^verbatim>\<open>__init__\<close> on, never
  \<^verbatim>\<open>None\<close>, so the reload is not taken, with a session of the caller or with one of
  its own.
\<close>

definition fetch_content ::
  "env \<Rightarrow> net \<Rightarrow> pystr \<Rightarrow> params \<Rightarrow> bool \<Rightarrow> bool \<Rightarrow> fetcher
     \<Rightarrow> (error + content option) \<times> fetcher" where
  "fetch_content e nw url ps force_refresh ignore_bad_request st =
     fetch_with_session e nw url ps force_refresh ignore_bad_request st"

subsection \<open>Notions of the statements\<close>

definition keys_of :: "('k \<times> 'v) list \<Rightarrow> 'k set" where
  "keys_of d = dom (map_of d)"









text \<open>No key is in both tables.\<close>

definition disjoint_tables :: "fetcher \<Rightarrow> bool" where
  "disjoint_tables st =
     (filter (has_key (bad_request_cache st)) (map fst (successful_cache st)) = [])"


text \<open>
  The exchange fails before anything is stored: no response (a transport error or the
  timeout), a status from 400 on, a body that cannot be read or decoded, an empty HTML
  body, a media type that is neither HTML nor JSON. The other way a fetch that reaches
  the network fails is \<open>markup_rejected\<close> below.
\<close>

definition exchange_fails :: "net \<Rightarrow> bool" where
  "exchange_fails nw =
     (case nw of
        NoResponse x \<Rightarrow> True
      | Replied r \<Rightarrow>
          400 \<le> status r \<or>
          (if contains (lit ''text/html'') (lower (content_type r))
           then (case text_body r of Inl x \<Rightarrow> True | Inr t \<Rightarrow> t = [])
           else if contains (lit ''application/json'') (lower (content_type r))
           then (case json_body r of Inl x \<Rightarrow> True | Inr j \<Rightarrow> False)
           else True))"

text \<open>
  The exchange brings a non-empty HTML body, and the parser raises on it (line 90), after
  the body has been stored and the file written.
\<close>

definition markup_rejected :: "env \<Rightarrow> net \<Rightarrow> bool" where
  "markup_rejected e nw =
     (case nw of
        NoResponse x \<Rightarrow> False
      | Replied r \<Rightarrow>
          status r < 400 \<and> contains (lit ''text/html'') (lower (content_type r))
          \<and> (case text_body r of Inl x \<Rightarrow> False | Inr t \<Rightarrow> t \<noteq> [] \<and> parser e t \<noteq> None))"

text \<open>
  The response is one for which the \<^verbatim>\<open>try\<close> block itself calls
  \<^verbatim>\<open>_handle_error_and_cache\<close> (lines 93 and 108): an empty HTML body, or a media type
  that is neither HTML nor JSON.
\<close>

definition content_fault :: "net \<Rightarrow> bool" where
  "content_fault nw =
     (case nw of
        NoResponse x \<Rightarrow> False
      | Replied r \<Rightarrow>
          status r < 400 \<and>
          (if contains (lit ''text/html'') (lower (content_type r))
           then text_body r = Inr []
           else \<not> contains (lit ''application/json'') (lower (content_type r))))"



subsection \<open>Example runs\<close>

definition steady_disk :: "nat \<Rightarrow> write_outcome" where
  "steady_disk n = Written"

text \<open>A parser that raises on one markup declaration and takes everything else.\<close>

definition ex_parser_message :: pystr where
  "ex_parser_message
     = lit ''unknown status keyword '' @ [39] @ lit ''foo '' @ [39] @ lit '' in marked section''"

definition ex_parser :: "pystr \<Rightarrow> pystr option" where
  "ex_parser s = (if s = lit ''<![foo bar]>'' then Some ex_parser_message else None)"

text \<open>A clock that advances by one between any two reads, a disk that takes every write.\<close>

definition ex_env :: env where
  "ex_env = \<lparr>clock = int, disk = steady_disk, parser = ex_parser\<rparr>"

definition ex_url :: pystr where
  "ex_url = lit ''https://example.test/y''"

definition ex_params :: params where
  "ex_params = [(lit ''a'', PStr (lit ''1''))]"

definition ex_html :: net where
  "ex_html = Replied \<lparr>status = 200, status_error = [],
     content_type = lit ''Text/HTML; charset=utf-8'',
     text_body = Inr (lit ''<html>ok</html>''),
     json_body = Inl (ClientError (lit ''Attempt to decode JSON with unexpected mimetype''))\<rparr>"

definition ex_json_string :: net where
  "ex_json_string = Replied \<lparr>status = 200, status_error = [],
     content_type = lit ''application/json'',
     text_body = Inr ([34] @ lit ''hello'' @ [34]),
     json_body = Inr (JStr (lit ''hello''))\<rparr>"

definition ex_500 :: net where
  "ex_500 = Replied \<lparr>status = 500, status_error = lit ''500, message=Internal Server Error'',
     content_type = lit ''text/plain'', text_body = Inr [],
     json_body = Inl (ClientError (lit ''Attempt to decode JSON with unexpected mimetype''))\<rparr>"


definition ex_rejected_reply :: response where
  "ex_rejected_reply = \<lparr>status = 200, status_error = [],
     content_type = lit ''text/html'',
     text_body = Inr (lit ''<![foo bar]>''),
     json_body = Inl (ClientError (lit ''Attempt to decode JSON with unexpected mimetype''))\<rparr>"

definition ex_rejected :: net where
  "ex_rejected = Replied ex_rejected_reply"








definition ex_plain_reply :: response where
  "ex_plain_reply = \<lparr>status = 200, status_error = [],
     content_type = lit ''text/plain'', text_body = Inr (lit ''ok''),
     json_body = Inl (ClientError (lit ''Attempt to decode JSON with unexpected mimetype''))\<rparr>"

text \<open>A fresh engine without a cache file, and the states after one, two and three calls.\<close>

definition ex_start :: fetcher where
  "ex_start = init Absent"

definition ex_fetched :: fetcher where
  "ex_fetched = snd (fetch_content ex_env ex_html ex_url ex_params False False ex_start)"

definition ex_refresh_failed :: fetcher where
  "ex_refresh_failed = snd (fetch_content ex_env ex_500 ex_url ex_params True False ex_fetched)"

definition ex_failed :: fetcher where
  "ex_failed = snd (fetch_content ex_env ex_500 ex_url ex_params False False ex_start)"

text \<open>The state after a first call whose HTML body the parser rejects.\<close>

definition ex_stored_rejected :: fetcher where
  "ex_stored_rejected = snd (fetch_content ex_env ex_rejected ex_url ex_params False False ex_start)"


text \<open>
  Two fetches of the same key on a fresh engine, interleaved: both start and are
  suspended in \<^verbatim>\<open>session.get\<close>; the first is answered with HTML and stores it; the
  second is answered with the status 500.
\<close>

definition ex_both_started :: fetcher where
  "ex_both_started =
     snd (fetch_start ex_env ex_url ex_params False False
            (snd (fetch_start ex_env ex_url ex_params False False ex_start)))"

definition ex_interleaved :: fetcher where
  "ex_interleaved =
     snd (fetch_resume ex_env ex_500 ex_url ex_params False
            (snd (fetch_resume ex_env ex_html ex_url ex_params False ex_both_started)))"






section \<open>Properties\<close>

subsection \<open>Dictionaries\<close>

lemma has_key_keys_of: "has_key d k = (k \<in> keys_of d)"
  by (auto simp add: has_key_def keys_of_def)

lemma keys_of_update: "keys_of (AList.update k v d) = insert k (keys_of d)"
  by (simp add: keys_of_def update_conv')

lemma keys_of_delete: "keys_of (AList.delete k d) = keys_of d - {k}"
  by (simp add: keys_of_def delete_conv')

lemma map_of_update_same: "map_of (AList.update k v d) k = Some v"
  by (simp add: update_conv')

subsection \<open>Writing the file\<close>

lemma save_tables:
  "successful_cache (save_cache_to_file e st) = successful_cache st"
  "bad_request_cache (save_cache_to_file e st) = bad_request_cache st"
  "sent (save_cache_to_file e st) = sent st"
  "ticks (save_cache_to_file e st) = ticks st"
  "writes (save_cache_to_file e st) = Suc (writes st)"
  by (simp_all add: save_cache_to_file_def logger_def Let_def split: write_outcome.split)


subsection \<open>Recording a failure\<close>

lemma handle_error_ignored:
  "handle_error_and_cache e key url ps msg True st = (Inr (), logger msg st)"
  by (simp add: handle_error_and_cache_def)

lemma handle_error_raises:
  "fst (handle_error_and_cache e key url ps msg False st) = Inl (ValueError msg)"
  by (simp add: handle_error_and_cache_def time_time_def Let_def split: option.split prod.split)

lemma handle_error_tables:
  "successful_cache (snd (handle_error_and_cache e key url ps msg False st)) = successful_cache st"
  "keys_of (bad_request_cache (snd (handle_error_and_cache e key url ps msg False st)))
     = insert key (keys_of (bad_request_cache st))"
  "sent (snd (handle_error_and_cache e key url ps msg False st)) = sent st"
  "writes (snd (handle_error_and_cache e key url ps msg False st)) = Suc (writes st)"
  by (simp_all add: handle_error_and_cache_def time_time_def Let_def save_tables keys_of_update
        split: option.split prod.split)

lemma handle_error_entry:
  "map_of (bad_request_cache (snd (handle_error_and_cache e key url ps msg False st))) key =
     Some \<lparr>f_url = url, f_params = ps, f_last_request = clock e (ticks st), f_error = msg,
           f_first_request = (case map_of (bad_request_cache st) key of
                                Some old \<Rightarrow> f_first_request old
                              | None \<Rightarrow> clock e (Suc (ticks st)))\<rparr>"
  by (simp add: handle_error_and_cache_def time_time_def Let_def save_tables map_of_update_same
        split: option.split prod.split)


subsection \<open>Recording a success\<close>

lemma store_success_tables:
  "keys_of (successful_cache (store_success e key url ps d st)) = insert key (keys_of (successful_cache st))"
  "keys_of (bad_request_cache (store_success e key url ps d st)) = keys_of (bad_request_cache st) - {key}"
  "sent (store_success e key url ps d st) = sent st"
  "writes (store_success e key url ps d st) = Suc (writes st)"
  "ticks (store_success e key url ps d st) = Suc (Suc (ticks st))"
  by (auto simp add: store_success_def time_time_def Let_def save_tables keys_of_update keys_of_delete
        has_key_keys_of split: prod.split)

lemma store_success_entry:
  "map_of (successful_cache (store_success e key url ps d st)) key =
     Some \<lparr>s_url = url, s_params = ps, s_first_request = clock e (ticks st),
           s_last_request = clock e (Suc (ticks st)), s_data = d\<rparr>"
  by (simp add: store_success_def time_time_def Let_def save_tables map_of_update_same
        split: prod.split)


subsection \<open>The try block\<close>

lemma fault_in_try_ignored:
  "fault_in_try e key url ps msg True st = (Inr None, logger msg st)"
  by (simp add: fault_in_try_def handle_error_ignored)

lemma fault_in_try_raises:
  "fault_in_try e key url ps msg False st
     = (Inl (Exception msg), snd (handle_error_and_cache e key url ps msg False st))"
  by (simp add: fault_in_try_def case_prod_beta handle_error_raises)

lemma before_request_previously_failed:
  assumes "map_of (bad_request_cache st) key = Some old"
  shows "before_request e key url ps False st =
     (Inl (Exception (lit ''Request was previously marked as bad: '' @ key)),
      logger (lit ''Ignoring request due to previous failure: '' @ key)
        (st\<lparr>ticks := Suc (ticks st),
            bad_request_cache :=
              AList.update key (old\<lparr>f_last_request := clock e (ticks st)\<rparr>) (bad_request_cache st)\<rparr>))"
  using assms by (simp add: before_request_def time_time_def Let_def)

lemma before_request_free:
  assumes "ign \<or> \<not> has_key (bad_request_cache st) key"
  shows "before_request e key url ps ign st = (Inr (), st\<lparr>sent := sent st @ [(url, ps)]\<rparr>)"
  using assms by (auto simp add: before_request_def has_key_def)

lemma try_block_previously_failed:
  assumes "map_of (bad_request_cache st) key = Some old"
  shows "try_block e nw key url ps False st =
     (Inl (Exception (lit ''Request was previously marked as bad: '' @ key)),
      logger (lit ''Ignoring request due to previous failure: '' @ key)
        (st\<lparr>ticks := Suc (ticks st),
            bad_request_cache :=
              AList.update key (old\<lparr>f_last_request := clock e (ticks st)\<rparr>) (bad_request_cache st)\<rparr>))"
  by (simp add: try_block_def before_request_previously_failed [OF assms])

lemma try_block_free:
  assumes "ign \<or> \<not> has_key (bad_request_cache st) key"
  shows "try_block e nw key url ps ign st
     = after_response e nw key url ps ign (st\<lparr>sent := sent st @ [(url, ps)]\<rparr>)"
  by (simp add: try_block_def before_request_free [OF assms])

lemma try_block_network:
  assumes "ign \<or> \<not> has_key (bad_request_cache st) key"
  shows "try_block e nw key url ps ign st =
     (let st1 = st\<lparr>sent := sent st @ [(url, ps)]\<rparr> in
        case nw of
          NoResponse x \<Rightarrow> (Inl x, st1)
        | Replied r \<Rightarrow>
            if 400 \<le> status r then (Inl (ClientError (status_error r)), st1)
            else if contains (lit ''text/html'') (lower (content_type r)) then
              (case text_body r of
                 Inl x \<Rightarrow> (Inl x, st1)
               | Inr html_content \<Rightarrow>
                   if html_content \<noteq> [] then
                     (case bs e html_content of
                        Inr tree \<Rightarrow>
                          (Inr (Some tree), store_success e key url ps (JStr html_content) st1)
                      | Inl m \<Rightarrow>
                          (Inl (Exception m), store_success e key url ps (JStr html_content) st1))
                   else
                     fault_in_try e key url ps
                       (lit ''Empty HTML content received from '' @ url) ign st1)
            else if contains (lit ''application/json'') (lower (content_type r)) then
              (case json_body r of
                 Inl x \<Rightarrow> (Inl x, st1)
               | Inr json_content \<Rightarrow>
                   (Inr (Some (Plain json_content)),
                    store_success e key url ps json_content st1))
            else
              fault_in_try e key url ps
                (lit ''Unexpected content type '' @ [39] @ content_type r @ [39]
                   @ lit '' received from '' @ url) ign st1)"
  by (simp add: try_block_free [OF assms] after_response_def Let_def
        split: net.split sum.split)

text \<open>The four ways the second part of the block can end.\<close>

lemma after_response_shapes:
  "(\<not> exchange_fails nw \<and> \<not> markup_rejected e nw \<and>
      (\<exists>c d. after_response e nw key url ps ign st
         = (Inr (Some c), store_success e key url ps d st)))
   \<or> (markup_rejected e nw \<and> \<not> exchange_fails nw \<and>
      (\<exists>m body. after_response e nw key url ps ign st
         = (Inl (Exception m), store_success e key url ps (JStr body) st)))
   \<or> (exchange_fails nw \<and> \<not> markup_rejected e nw \<and>
      (\<exists>x. after_response e nw key url ps ign st = (Inl x, st)))
   \<or> (exchange_fails nw \<and> \<not> markup_rejected e nw \<and>
      (\<exists>m. after_response e nw key url ps ign st = fault_in_try e key url ps m ign st))"
proof (cases nw)
  case (NoResponse x)
  then show ?thesis
    by (simp add: after_response_def exchange_fails_def markup_rejected_def)
next
  case (Replied r)
  then show ?thesis
    by (auto simp add: after_response_def exchange_fails_def markup_rejected_def bs_def Let_def
          split: sum.splits option.splits)
qed

subsection \<open>One call\<close>

lemma except_clauses_returned:
  "except_clauses e key url ps ign (Inr r, st) = (Inr r, st)"
  by (simp add: except_clauses_def)

lemma except_clauses_ignored:
  "except_clauses e key url ps True (Inl x, st) = (Inr None, logger (error_message_of x url) st)"
  by (simp add: except_clauses_def handle_error_ignored)

lemma except_clauses_raises:
  "except_clauses e key url ps False (Inl x, st)
     = (Inl (ValueError (error_message_of x url)),
        snd (handle_error_and_cache e key url ps (error_message_of x url) False st))"
  by (simp add: except_clauses_def case_prod_beta handle_error_raises)

lemma fetch_hit:
  assumes "map_of (successful_cache st) (cache_key url ps) = Some entry"
  shows "fetch_content e nw url ps False ign st =
     (cached_content e (s_data entry),
      st\<lparr>ticks := Suc (ticks st),
         successful_cache :=
           AList.update (cache_key url ps) (entry\<lparr>s_last_request := clock e (ticks st)\<rparr>)
             (successful_cache st)\<rparr>)"
  using assms
  by (simp add: fetch_content_def fetch_with_session_def fetch_start_def time_time_def Let_def)

lemma fetch_miss_clauses:
  assumes "fr \<or> \<not> has_key (successful_cache st) (cache_key url ps)"
  shows "fetch_content e nw url ps fr ign st =
     except_clauses e (cache_key url ps) url ps ign
       (try_block e nw (cache_key url ps) url ps ign st)"
proof -
  have none: "(if fr then None else map_of (successful_cache st) (cache_key url ps)) = None"
    using assms by (auto simp add: has_key_def)
  show ?thesis
  proof (cases "before_request e (cache_key url ps) url ps ign st")
    case (Pair b st')
    then show ?thesis
      by (cases b)
        (simp_all add: fetch_content_def fetch_with_session_def fetch_start_def fetch_resume_def
           try_block_def none Let_def case_prod_beta)
  qed
qed

lemma fetch_miss:
  assumes "fr \<or> \<not> has_key (successful_cache st) (cache_key url ps)"
  shows "fetch_content e nw url ps fr ign st =
     (case try_block e nw (cache_key url ps) url ps ign st of
        (Inr r, st') \<Rightarrow> (Inr r, st')
      | (Inl x, st') \<Rightarrow>
          (case handle_error_and_cache e (cache_key url ps) url ps (error_message_of x url)
                  ign st' of
             (Inl err, st'') \<Rightarrow> (Inl err, st'')
           | (Inr u, st'') \<Rightarrow> (Inr None, st'')))"
  by (simp add: fetch_miss_clauses [OF assms] except_clauses_def)


lemma caught_raises:
  "(case handle_error_and_cache e key url ps msg False st of
      (Inl err, st'') \<Rightarrow> (Inl err, st'')
    | (Inr u, st'') \<Rightarrow> (Inr None :: error + content option, st''))
   = (Inl (ValueError msg), snd (handle_error_and_cache e key url ps msg False st))"
  by (simp add: case_prod_beta handle_error_raises)

subsection \<open>The example runs\<close>

lemma ex_html_kind:
  "contains (lit ''text/html'') (lower (lit ''Text/HTML; charset=utf-8''))"
  by (simp add: lit_def lower_def)

lemma ex_json_kind:
  "\<not> contains (lit ''text/html'') (lower (lit ''application/json''))"
  "contains (lit ''application/json'') (lower (lit ''application/json''))"
  by (simp_all add: lit_def lower_def)

lemma ex_plain_kind:
  "\<not> contains (lit ''text/html'') (lower (lit ''text/plain''))"
  "\<not> contains (lit ''application/json'') (lower (lit ''text/plain''))"
  by (simp_all add: lit_def lower_def)

lemma ex_start_simps:
  "successful_cache ex_start = []" "bad_request_cache ex_start = []"
  "ticks ex_start = 0" "writes ex_start = 0" "sent ex_start = []" "cache_file ex_start = Absent"
  by (simp_all add: ex_start_def init_def load_cache_from_file_def logger_def)

lemma keys_of_Nil: "keys_of [] = {}"
  by (simp add: keys_of_def)

lemma ex_env_simps: "clock ex_env n = int n" "disk ex_env n = Written" "parser ex_env = ex_parser"
  by (simp_all add: ex_env_def steady_disk_def)

lemma html_text_nonempty: "lit ''<html>ok</html>'' \<noteq> []"
  by (simp add: lit_def)

lemma ex_env_parses:
  "bs ex_env (lit ''<html>ok</html>'') = Inr (Soup (lit ''<html>ok</html>''))"
  "bs ex_env (lit ''hello'') = Inr (Soup (lit ''hello''))"
  "bs ex_env (lit ''[1]'') = Inr (Soup (lit ''[1]''))"
  "bs ex_env (lit ''<![foo bar]>'') = Inl ex_parser_message"
  by (simp_all add: bs_def ex_env_def ex_parser_def lit_def)

lemma ex_fetched_eq:
  "fetch_content ex_env ex_html ex_url ex_params False False ex_start
     = (Inr (Some (Soup (lit ''<html>ok</html>''))),
        store_success ex_env (cache_key ex_url ex_params) ex_url ex_params
          (JStr (lit ''<html>ok</html>'')) (ex_start\<lparr>sent := [(ex_url, ex_params)]\<rparr>))"
proof -
  have miss: "False \<or> \<not> has_key (successful_cache ex_start) (cache_key ex_url ex_params)"
    by (simp add: ex_start_simps has_key_def)
  have nobad: "False \<or> \<not> has_key (bad_request_cache ex_start) (cache_key ex_url ex_params)"
    by (simp add: ex_start_simps has_key_def)
  show ?thesis
    by (simp add: fetch_miss [OF miss] try_block_network [OF nobad] ex_html_def ex_html_kind
          html_text_nonempty ex_env_parses ex_start_simps)
qed

lemma ex_fetched_simps:
  "map_of (successful_cache ex_fetched) (cache_key ex_url ex_params)
     = Some \<lparr>s_url = ex_url, s_params = ex_params, s_first_request = 0, s_last_request = 1,
             s_data = JStr (lit ''<html>ok</html>'')\<rparr>"
  "keys_of (successful_cache ex_fetched) = {cache_key ex_url ex_params}"
  "keys_of (bad_request_cache ex_fetched) = {}"
  "ticks ex_fetched = 2" "writes ex_fetched = 1" "sent ex_fetched = [(ex_url, ex_params)]"
  by (simp_all add: ex_fetched_def ex_fetched_eq store_success_entry store_success_tables
        ex_start_simps ex_env_simps keys_of_Nil)


lemma ex_refresh_failed_eq:
  "fetch_content ex_env ex_500 ex_url ex_params True False ex_fetched
     = (Inl (ValueError (error_message_of (ClientError (lit ''500, message=Internal Server Error'')) ex_url)),
        snd (handle_error_and_cache ex_env (cache_key ex_url ex_params) ex_url ex_params
               (error_message_of (ClientError (lit ''500, message=Internal Server Error'')) ex_url)
               False (ex_fetched\<lparr>sent := sent ex_fetched @ [(ex_url, ex_params)]\<rparr>)))"
proof -
  have miss: "True \<or> \<not> has_key (successful_cache ex_fetched) (cache_key ex_url ex_params)"
    by simp
  have nobad: "False \<or> \<not> has_key (bad_request_cache ex_fetched) (cache_key ex_url ex_params)"
    by (simp add: has_key_keys_of ex_fetched_simps)
  show ?thesis
    by (simp add: fetch_miss [OF miss] try_block_network [OF nobad] ex_500_def caught_raises)
qed

lemma ex_refresh_failed_simps:
  "successful_cache ex_refresh_failed = successful_cache ex_fetched"
  "keys_of (bad_request_cache ex_refresh_failed) = {cache_key ex_url ex_params}"
  by (simp_all add: ex_refresh_failed_def ex_refresh_failed_eq handle_error_tables ex_fetched_simps)

lemma ex_failed_eq:
  "fetch_content ex_env ex_500 ex_url ex_params False False ex_start
     = (Inl (ValueError (error_message_of (ClientError (lit ''500, message=Internal Server Error'')) ex_url)),
        snd (handle_error_and_cache ex_env (cache_key ex_url ex_params) ex_url ex_params
               (error_message_of (ClientError (lit ''500, message=Internal Server Error'')) ex_url)
               False (ex_start\<lparr>sent := [(ex_url, ex_params)]\<rparr>)))"
proof -
  have miss: "False \<or> \<not> has_key (successful_cache ex_start) (cache_key ex_url ex_params)"
    by (simp add: ex_start_simps has_key_def)
  have nobad: "False \<or> \<not> has_key (bad_request_cache ex_start) (cache_key ex_url ex_params)"
    by (simp add: ex_start_simps has_key_def)
  show ?thesis
    by (simp add: fetch_miss [OF miss] try_block_network [OF nobad] ex_500_def caught_raises
          ex_start_simps)
qed

lemma ex_failed_simps:
  "successful_cache ex_failed = []"
  "keys_of (bad_request_cache ex_failed) = {cache_key ex_url ex_params}"
  "map_of (bad_request_cache ex_failed) (cache_key ex_url ex_params)
     = Some \<lparr>f_url = ex_url, f_params = ex_params, f_last_request = 0,
             f_error = error_message_of (ClientError (lit ''500, message=Internal Server Error'')) ex_url,
             f_first_request = 1\<rparr>"
  by (simp_all add: ex_failed_def ex_failed_eq handle_error_tables handle_error_entry
        ex_start_simps ex_env_simps keys_of_Nil)

subsection \<open>The effect of a call that goes past the success table\<close>

lemma logger_simps:
  "successful_cache (logger m st) = successful_cache st"
  "bad_request_cache (logger m st) = bad_request_cache st"
  "cache_file (logger m st) = cache_file st"
  "writes (logger m st) = writes st"
  "ticks (logger m st) = ticks st"
  "sent (logger m st) = sent st"
  "log (logger m st) = log st @ [m]"
  by (simp_all add: logger_def)

lemma fetch_previously_failed:
  assumes old: "map_of (bad_request_cache st) (cache_key url ps) = Some old"
      and miss: "fr \<or> \<not> has_key (successful_cache st) (cache_key url ps)"
  shows "fetch_content e nw url ps fr False st =
     (Inl (ValueError (error_message_of
             (Exception (lit ''Request was previously marked as bad: '' @ cache_key url ps)) url)),
      snd (handle_error_and_cache e (cache_key url ps) url ps
             (error_message_of
                (Exception (lit ''Request was previously marked as bad: '' @ cache_key url ps)) url)
             False
             (logger (lit ''Ignoring request due to previous failure: '' @ cache_key url ps)
                (st\<lparr>ticks := Suc (ticks st),
                    bad_request_cache :=
                      AList.update (cache_key url ps) (old\<lparr>f_last_request := clock e (ticks st)\<rparr>)
                        (bad_request_cache st)\<rparr>))))"
  by (simp add: fetch_miss [OF miss] try_block_previously_failed [OF old] caught_raises)

lemma fetch_network:
  assumes miss: "fr \<or> \<not> has_key (successful_cache st) (cache_key url ps)"
      and free: "ign \<or> \<not> has_key (bad_request_cache st) (cache_key url ps)"
  shows "fetch_content e nw url ps fr ign st =
     except_clauses e (cache_key url ps) url ps ign
       (after_response e nw (cache_key url ps) url ps ign (st\<lparr>sent := sent st @ [(url, ps)]\<rparr>))"
  by (simp add: fetch_miss_clauses [OF miss] try_block_free [OF free])


lemma disjoint_tables_iff:
  "disjoint_tables st
     \<longleftrightarrow> keys_of (successful_cache st) \<inter> keys_of (bad_request_cache st) = {}"
  by (auto simp add: disjoint_tables_def filter_empty_conv has_key_keys_of keys_of_def
        dom_map_of_conv_image_fst)

lemma filter_update_fresh:
  "\<not> has_key d k \<Longrightarrow> filter (\<lambda>p. fst p = k) (AList.update k v d) = [(k, v)]"
  by (induction d) (auto simp add: has_key_def split: if_splits)


lemma fetch_reads_entry:
  assumes "fr \<or> \<not> has_key (successful_cache st) (cache_key url ps)"
      and "ign \<or> \<not> has_key (bad_request_cache st) (cache_key url ps)"
      and "try_block e nw (cache_key url ps) url ps ign st
             = (Inr (Some c), store_success e (cache_key url ps) url ps d st1)"
  shows "fst (fetch_content e nw url ps fr ign st) = Inr (Some c)"
    and "map_of (successful_cache (snd (fetch_content e nw url ps fr ign st))) (cache_key url ps)
           = Some \<lparr>s_url = url, s_params = ps, s_first_request = clock e (ticks st1),
                   s_last_request = clock e (Suc (ticks st1)), s_data = d\<rparr>"
  using assms(3) by (simp_all add: fetch_miss [OF assms(1)] store_success_entry)

subsection \<open>The key sets after each step\<close>

lemma fetch_start_keys:
  "keys_of (successful_cache (snd (fetch_start e url ps fr ign st))) = keys_of (successful_cache st)
   \<and> keys_of (bad_request_cache (snd (fetch_start e url ps fr ign st)))
       = keys_of (bad_request_cache st)"
proof (cases "(if fr then None else map_of (successful_cache st) (cache_key url ps))")
  case (Some entry)
  then have "cache_key url ps \<in> keys_of (successful_cache st)"
    by (auto simp add: keys_of_def split: if_splits)
  with Some show ?thesis
    by (simp add: fetch_start_def time_time_def Let_def keys_of_update insert_absorb)
next
  case None
  show ?thesis
  proof (cases "(if ign then None else map_of (bad_request_cache st) (cache_key url ps))")
    case inbad: (Some old)
    then have notign: "\<not> ign" and old: "map_of (bad_request_cache st) (cache_key url ps) = Some old"
      by (auto split: if_splits)
    from old have "cache_key url ps \<in> keys_of (bad_request_cache st)"
      by (auto simp add: keys_of_def)
    with None notign show ?thesis
      by (simp add: fetch_start_def Let_def before_request_previously_failed [OF old]
            except_clauses_raises handle_error_tables logger_simps keys_of_update insert_absorb)
  next
    case free: None
    with None show ?thesis
      by (simp add: fetch_start_def Let_def before_request_def)
  qed
qed

lemma after_response_steps:
  "(\<not> content_fault nw \<and>
      (\<exists>c d. after_response e nw key url ps ign st = (c, store_success e key url ps d st)))
   \<or> (\<not> content_fault nw \<and> snd (after_response e nw key url ps ign st) = st)
   \<or> (content_fault nw \<and>
      (\<exists>m. after_response e nw key url ps ign st = fault_in_try e key url ps m ign st))"
proof (cases nw)
  case (NoResponse x)
  then show ?thesis
    by (simp add: after_response_def content_fault_def)
next
  case (Replied r)
  then show ?thesis
    by (auto simp add: after_response_def content_fault_def Let_def
          split: sum.splits)
qed

lemma after_response_disjoint:
  assumes "disjoint_tables st"
  shows "disjoint_tables (snd (after_response e nw key url ps ign st))
     \<longleftrightarrow> \<not> (content_fault nw \<and> \<not> ign \<and> has_key (successful_cache st) key)"
proof (cases ign)
  case True
  with after_response_steps [of nw e key url ps ign st] assms show ?thesis
    by (auto simp add: disjoint_tables_iff store_success_tables fault_in_try_ignored logger_simps)
next
  case False
  with after_response_steps [of nw e key url ps ign st] assms show ?thesis
    by (auto simp add: disjoint_tables_iff store_success_tables fault_in_try_raises
          handle_error_tables has_key_keys_of)
qed

lemma except_clauses_disjoint:
  assumes "disjoint_tables st"
  shows "disjoint_tables (snd (except_clauses e key url ps ign (blk, st)))
     \<longleftrightarrow> \<not> ((\<exists>x. blk = Inl x) \<and> \<not> ign \<and> has_key (successful_cache st) key)"
proof (cases blk)
  case (Inl x)
  with assms show ?thesis
    by (cases ign)
      (auto simp add: except_clauses_ignored except_clauses_raises disjoint_tables_iff
         logger_simps handle_error_tables has_key_keys_of)
next
  case (Inr r)
  with assms show ?thesis
    by (simp add: except_clauses_returned)
qed

lemma after_response_content:
  assumes "fst (after_response e nw key url ps ign st) = Inr (Some c)"
  shows "\<exists>d. snd (after_response e nw key url ps ign st) = store_success e key url ps d st"
proof (cases nw)
  case (NoResponse x)
  with assms show ?thesis by (simp add: after_response_def)
next
  case (Replied r)
  with assms show ?thesis
    by (cases ign)
      (auto simp add: after_response_def Let_def fault_in_try_ignored fault_in_try_raises
         split: sum.splits if_splits)
qed

lemma fetch_hit_disjoint:
  assumes "map_of (successful_cache st) (cache_key url ps) = Some entry"
  shows "disjoint_tables (snd (fetch_content e nw url ps False ign st)) = disjoint_tables st"
    and "\<forall>m. fst (fetch_content e nw url ps False ign st) \<noteq> Inl (ValueError m)"
proof -
  from assms have "cache_key url ps \<in> keys_of (successful_cache st)"
    by (auto simp add: keys_of_def)
  then show "disjoint_tables (snd (fetch_content e nw url ps False ign st)) = disjoint_tables st"
    by (simp add: fetch_hit [OF assms] disjoint_tables_iff keys_of_update insert_absorb)
  show "\<forall>m. fst (fetch_content e nw url ps False ign st) \<noteq> Inl (ValueError m)"
    by (auto simp add: fetch_hit [OF assms] cached_content_def split: json.splits sum.splits)
qed

lemma fetch_network_disjoint:
  assumes miss: "fr \<or> \<not> has_key (successful_cache st) (cache_key url ps)"
      and free: "ign \<or> \<not> has_key (bad_request_cache st) (cache_key url ps)"
      and disj: "disjoint_tables st"
  shows "disjoint_tables (snd (fetch_content e nw url ps fr ign st))
     \<longleftrightarrow> \<not> ((\<exists>m. fst (fetch_content e nw url ps fr ign st) = Inl (ValueError m))
            \<and> has_key (successful_cache (snd (fetch_content e nw url ps fr ign st)))
                 (cache_key url ps))"
proof -
  note eq = fetch_network [OF miss free, of e nw]
  note shapes = after_response_shapes [of nw e "cache_key url ps" url ps ign
                  "st\<lparr>sent := sent st @ [(url, ps)]\<rparr>"]
  from disj have d: "keys_of (successful_cache st) \<inter> keys_of (bad_request_cache st) = {}"
    by (simp add: disjoint_tables_iff)
  show ?thesis
  proof (cases ign)
    case True
    from True eq shapes d show ?thesis
      by (auto simp add: disjoint_tables_iff fault_in_try_ignored except_clauses_ignored
            except_clauses_returned logger_simps store_success_tables)
  next
    case False
    from False eq shapes d show ?thesis
      by (auto simp add: disjoint_tables_iff fault_in_try_raises except_clauses_raises
            except_clauses_returned handle_error_tables store_success_tables has_key_keys_of)
  qed
qed

lemma fetch_content_disjoint:
  assumes disj: "disjoint_tables st"
  shows "disjoint_tables (snd (fetch_content e nw url ps fr ign st))
     \<longleftrightarrow> \<not> ((\<exists>m. fst (fetch_content e nw url ps fr ign st) = Inl (ValueError m))
            \<and> has_key (successful_cache (snd (fetch_content e nw url ps fr ign st)))
                 (cache_key url ps))"
proof (cases "fr \<or> \<not> has_key (successful_cache st) (cache_key url ps)")
  case miss: True
  show ?thesis
  proof (cases "ign \<or> \<not> has_key (bad_request_cache st) (cache_key url ps)")
    case True
    from fetch_network_disjoint [OF miss True disj] show ?thesis .
  next
    case False
    then obtain old where old: "map_of (bad_request_cache st) (cache_key url ps) = Some old"
      and notign: "\<not> ign"
      by (auto simp add: has_key_def)
    from old have inbad: "cache_key url ps \<in> keys_of (bad_request_cache st)"
      by (auto simp add: keys_of_def)
    from disj have d: "keys_of (successful_cache st) \<inter> keys_of (bad_request_cache st) = {}"
      by (simp add: disjoint_tables_iff)
    from notign inbad d show ?thesis
      by (auto simp add: fetch_previously_failed [OF old miss] disjoint_tables_iff
            handle_error_tables logger_simps keys_of_update has_key_keys_of insert_absorb)
  qed
next
  case False
  then obtain entry where entry: "map_of (successful_cache st) (cache_key url ps) = Some entry"
    and "\<not> fr"
    by (auto simp add: has_key_def)
  with disj fetch_hit_disjoint [OF entry, of e nw ign] show ?thesis
    by simp
qed

subsection \<open>The runs with a body the parser rejects, and the edited file\<close>

lemma rejected_text_nonempty: "lit ''<![foo bar]>'' \<noteq> []"
  by (simp add: lit_def)

lemma ex_rejected_kind: "contains (lit ''text/html'') (lower (lit ''text/html''))"
  by (simp add: lit_def lower_def)

lemma ex_stored_rejected_eq:
  "fetch_content ex_env ex_rejected ex_url ex_params False False ex_start
     = (Inl (ValueError (error_message_of (Exception ex_parser_message) ex_url)),
        snd (handle_error_and_cache ex_env (cache_key ex_url ex_params) ex_url ex_params
               (error_message_of (Exception ex_parser_message) ex_url) False
               (store_success ex_env (cache_key ex_url ex_params) ex_url ex_params
                  (JStr (lit ''<![foo bar]>'')) (ex_start\<lparr>sent := [(ex_url, ex_params)]\<rparr>))))"
proof -
  have miss: "False \<or> \<not> has_key (successful_cache ex_start) (cache_key ex_url ex_params)"
    by (simp add: ex_start_simps has_key_def)
  have nobad: "False \<or> \<not> has_key (bad_request_cache ex_start) (cache_key ex_url ex_params)"
    by (simp add: ex_start_simps has_key_def)
  show ?thesis
    by (simp add: fetch_miss [OF miss] try_block_network [OF nobad] ex_rejected_def ex_rejected_reply_def
          ex_rejected_kind rejected_text_nonempty ex_env_parses ex_start_simps caught_raises)
qed

lemma ex_stored_rejected_simps:
  "map_of (successful_cache ex_stored_rejected) (cache_key ex_url ex_params)
     = Some \<lparr>s_url = ex_url, s_params = ex_params, s_first_request = 0, s_last_request = 1,
             s_data = JStr (lit ''<![foo bar]>'')\<rparr>"
  "keys_of (successful_cache ex_stored_rejected) = {cache_key ex_url ex_params}"
  "keys_of (bad_request_cache ex_stored_rejected) = {cache_key ex_url ex_params}"
  by (simp_all add: ex_stored_rejected_def ex_stored_rejected_eq handle_error_tables
        store_success_entry store_success_tables ex_start_simps ex_env_simps keys_of_Nil)




lemma ex_both_started_eq:
  "fst (fetch_start ex_env ex_url ex_params False False ex_start) = None"
  "fst (fetch_start ex_env ex_url ex_params False False
          (snd (fetch_start ex_env ex_url ex_params False False ex_start))) = None"
  "ex_both_started = ex_start\<lparr>sent := [(ex_url, ex_params), (ex_url, ex_params)]\<rparr>"
  by (simp_all add: ex_both_started_def fetch_start_def before_request_def ex_start_simps Let_def)

lemma ex_interleaved_simps:
  "keys_of (successful_cache ex_interleaved) = {cache_key ex_url ex_params}"
  "keys_of (bad_request_cache ex_interleaved) = {cache_key ex_url ex_params}"
  by (simp_all add: ex_interleaved_def ex_both_started_eq fetch_resume_def after_response_def
        ex_html_def ex_500_def ex_html_kind html_text_nonempty ex_env_parses Let_def
        except_clauses_returned except_clauses_raises handle_error_tables store_success_tables
        ex_start_simps keys_of_Nil)

subsection \<open>The text of a key\<close>




























subsection \<open>Integers\<close>














subsection \<open>Items and lists\<close>





subsection \<open>The key of a request\<close>






subsection \<open>A high surrogate followed by a low one\<close>











section \<open>The claims\<close>







text \<open>
  C1, as stated: in every reachable state no cache key is in both tables. It fails in
  three ways. After a success, a forced refresh that fails writes the failure entry and
  leaves the success entry. A first fetch whose HTML body the parser rejects stores the
  success entry, then records the failure. And of two fetches of one key that are both
  suspended in the request, the first stores its success and the second then records
  its failure.
\<close>

theorem both_tables_counterexample:
  "disjoint_tables ex_start \<and> disjoint_tables ex_fetched \<and> \<not> disjoint_tables ex_refresh_failed
   \<and> has_key (successful_cache ex_refresh_failed) (cache_key ex_url ex_params)
   \<and> has_key (bad_request_cache ex_refresh_failed) (cache_key ex_url ex_params)
   \<and> \<not> disjoint_tables ex_stored_rejected
   \<and> has_key (successful_cache ex_stored_rejected) (cache_key ex_url ex_params)
   \<and> has_key (bad_request_cache ex_stored_rejected) (cache_key ex_url ex_params)
   \<and> fst (fetch_start ex_env ex_url ex_params False False ex_start) = None
   \<and> fst (fetch_start ex_env ex_url ex_params False False
            (snd (fetch_start ex_env ex_url ex_params False False ex_start))) = None
   \<and> \<not> disjoint_tables ex_interleaved
   \<and> has_key (successful_cache ex_interleaved) (cache_key ex_url ex_params)
   \<and> has_key (bad_request_cache ex_interleaved) (cache_key ex_url ex_params)"
  by (simp add: disjoint_tables_iff has_key_keys_of ex_refresh_failed_simps ex_fetched_simps
        ex_stored_rejected_simps ex_interleaved_simps ex_both_started_eq ex_start_simps
        keys_of_Nil)

text \<open>
  C1, amended. Each atomic step of a fetch started in a state with disjoint tables leaves
  them disjoint, except a step that writes a failure entry for a key that has a success
  entry then. The step up to the request (a read of the success table and the
  previously-failed fault included) changes the key set of neither table. The step of
  the \<^verbatim>\<open>try\<close> block after the response breaks disjointness exactly when
  \<^verbatim>\<open>ignore_bad_request\<close> is false, the response has an empty HTML body or a media type
  that is neither HTML nor JSON, and the key has a success entry. The \<^verbatim>\<open>except\<close>
  clause breaks it exactly when \<^verbatim>\<open>ignore_bad_request\<close> is false, it handles an
  exception, and the key has a success entry. For a call that runs with no other fetch
  in between, disjointness is broken exactly when the call raises a \<^verbatim>\<open>ValueError\<close>
  and its key has a success entry at the end. A step that returns content of a response
  leaves its key in the success table and not in the failure table.
\<close>

theorem tables_stay_disjoint:
  "(disjoint_tables st \<longrightarrow>
      disjoint_tables (snd (fetch_start e url ps fr ign st))
    \<and> (disjoint_tables (snd (after_response e nw (cache_key url ps) url ps ign st))
         \<longleftrightarrow> \<not> (content_fault nw \<and> \<not> ign \<and> has_key (successful_cache st) (cache_key url ps)))
    \<and> (disjoint_tables (snd (except_clauses e (cache_key url ps) url ps ign (blk, st)))
         \<longleftrightarrow> \<not> ((\<exists>x. blk = Inl x) \<and> \<not> ign \<and> has_key (successful_cache st) (cache_key url ps)))
    \<and> (disjoint_tables (snd (fetch_content e nw url ps fr ign st))
         \<longleftrightarrow> \<not> ((\<exists>m. fst (fetch_content e nw url ps fr ign st) = Inl (ValueError m))
                \<and> has_key (successful_cache (snd (fetch_content e nw url ps fr ign st)))
                     (cache_key url ps))))
   \<and> (\<forall>c. fst (after_response e nw (cache_key url ps) url ps ign st) = Inr (Some c) \<longrightarrow>
         has_key (successful_cache (snd (after_response e nw (cache_key url ps) url ps ign st)))
           (cache_key url ps)
       \<and> \<not> has_key (bad_request_cache (snd (after_response e nw (cache_key url ps) url ps ign st)))
            (cache_key url ps))"
proof -
  have start: "disjoint_tables st \<Longrightarrow> disjoint_tables (snd (fetch_start e url ps fr ign st))"
    by (simp add: disjoint_tables_iff fetch_start_keys)
  have content: "\<forall>c. fst (after_response e nw (cache_key url ps) url ps ign st) = Inr (Some c) \<longrightarrow>
         has_key (successful_cache (snd (after_response e nw (cache_key url ps) url ps ign st)))
           (cache_key url ps)
       \<and> \<not> has_key (bad_request_cache (snd (after_response e nw (cache_key url ps) url ps ign st)))
            (cache_key url ps)"
  proof (intro allI impI)
    fix c
    assume "fst (after_response e nw (cache_key url ps) url ps ign st) = Inr (Some c)"
    from after_response_content [OF this]
    show "has_key (successful_cache (snd (after_response e nw (cache_key url ps) url ps ign st)))
           (cache_key url ps)
       \<and> \<not> has_key (bad_request_cache (snd (after_response e nw (cache_key url ps) url ps ign st)))
            (cache_key url ps)"
      by (auto simp add: has_key_keys_of store_success_tables)
  qed
  from start after_response_disjoint [of st e nw "cache_key url ps" url ps ign]
    except_clauses_disjoint [of st e "cache_key url ps" url ps ign blk]
    fetch_content_disjoint [of st e nw url ps fr ign] content
  show ?thesis by blast
qed

theorem tables_stay_disjoint_witness:
  "disjoint_tables ex_fetched
   \<and> has_key (successful_cache ex_fetched) (cache_key ex_url ex_params)
   \<and> content_fault (Replied ex_plain_reply) \<and> \<not> content_fault ex_html
   \<and> disjoint_tables (snd (fetch_start ex_env ex_url ex_params True False ex_fetched))
   \<and> \<not> disjoint_tables
         (snd (after_response ex_env (Replied ex_plain_reply) (cache_key ex_url ex_params)
                 ex_url ex_params False ex_fetched))
   \<and> \<not> disjoint_tables
         (snd (except_clauses ex_env (cache_key ex_url ex_params) ex_url ex_params False
                 (Inl TimeoutError, ex_fetched)))
   \<and> disjoint_tables
       (snd (after_response ex_env ex_html (cache_key ex_url ex_params) ex_url ex_params False
               ex_fetched))
   \<and> disjoint_tables ex_failed
   \<and> fst (after_response ex_env ex_html (cache_key ex_url ex_params) ex_url ex_params True ex_failed)
       = Inr (Some (Soup (lit ''<html>ok</html>'')))
   \<and> has_key
       (successful_cache
          (snd (after_response ex_env ex_html (cache_key ex_url ex_params) ex_url ex_params True
                  ex_failed)))
       (cache_key ex_url ex_params)
   \<and> \<not> has_key
         (bad_request_cache
            (snd (after_response ex_env ex_html (cache_key ex_url ex_params) ex_url ex_params True
                    ex_failed)))
         (cache_key ex_url ex_params)
   \<and> fst (fetch_content ex_env ex_html ex_url ex_params False True ex_failed)
       = Inr (Some (Soup (lit ''<html>ok</html>'')))
   \<and> disjoint_tables (snd (fetch_content ex_env ex_html ex_url ex_params False True ex_failed))"
proof -
  have d1: "disjoint_tables ex_fetched"
    by (simp add: disjoint_tables_iff ex_fetched_simps)
  have hk: "has_key (successful_cache ex_fetched) (cache_key ex_url ex_params)"
    by (simp add: has_key_keys_of ex_fetched_simps)
  have cf: "content_fault (Replied ex_plain_reply)"
    by (simp add: content_fault_def ex_plain_reply_def ex_plain_kind)
  have ncf: "\<not> content_fault ex_html"
    by (simp add: content_fault_def ex_html_def ex_html_kind html_text_nonempty)
  have d2: "disjoint_tables ex_failed"
    by (simp add: disjoint_tables_iff ex_failed_simps keys_of_Nil)
  have r1: "fst (after_response ex_env ex_html (cache_key ex_url ex_params) ex_url ex_params True
                 ex_failed)
       = Inr (Some (Soup (lit ''<html>ok</html>'')))"
    by (simp add: after_response_def ex_html_def ex_html_kind html_text_nonempty ex_env_parses
          Let_def)
  have miss: "False \<or> \<not> has_key (successful_cache ex_failed) (cache_key ex_url ex_params)"
    by (simp add: has_key_def ex_failed_simps)
  have free: "True \<or> \<not> has_key (bad_request_cache ex_failed) (cache_key ex_url ex_params)"
    by simp
  have r2: "fst (fetch_content ex_env ex_html ex_url ex_params False True ex_failed)
       = Inr (Some (Soup (lit ''<html>ok</html>'')))"
    by (simp add: fetch_miss [OF miss] try_block_network [OF free] ex_html_def ex_html_kind
          html_text_nonempty ex_env_parses)
  have r3: "\<not> (\<exists>m. fst (fetch_content ex_env ex_html ex_url ex_params False True ex_failed)
                  = Inl (ValueError m))"
    by (simp add: r2)
  have x: "\<exists>x. (Inl TimeoutError :: exn + content option) = Inl x"
    by simp
  note t1 = tables_stay_disjoint [where st = ex_fetched and e = ex_env and url = ex_url
      and ps = ex_params and fr = True and ign = False and nw = "Replied ex_plain_reply"
      and blk = "Inl TimeoutError"]
  note t2 = tables_stay_disjoint [where st = ex_fetched and e = ex_env and url = ex_url
      and ps = ex_params and fr = True and ign = False and nw = ex_html
      and blk = "Inl TimeoutError"]
  note t3 = tables_stay_disjoint [where st = ex_failed and e = ex_env and url = ex_url
      and ps = ex_params and fr = False and ign = True and nw = ex_html
      and blk = "Inl TimeoutError"]
  from t1 d1 have a1: "disjoint_tables (snd (fetch_start ex_env ex_url ex_params True False ex_fetched))"
    by blast
  from t1 d1 cf hk
  have a2: "\<not> disjoint_tables
         (snd (after_response ex_env (Replied ex_plain_reply) (cache_key ex_url ex_params)
                 ex_url ex_params False ex_fetched))"
    by blast
  from t1 d1 hk x
  have a3: "\<not> disjoint_tables
         (snd (except_clauses ex_env (cache_key ex_url ex_params) ex_url ex_params False
                 (Inl TimeoutError, ex_fetched)))"
    by blast
  from t2 d1 ncf
  have a4: "disjoint_tables
       (snd (after_response ex_env ex_html (cache_key ex_url ex_params) ex_url ex_params False
               ex_fetched))"
    by blast
  from t3 r1
  have a5: "has_key
       (successful_cache
          (snd (after_response ex_env ex_html (cache_key ex_url ex_params) ex_url ex_params True
                  ex_failed)))
       (cache_key ex_url ex_params)
   \<and> \<not> has_key
         (bad_request_cache
            (snd (after_response ex_env ex_html (cache_key ex_url ex_params) ex_url ex_params True
                    ex_failed)))
         (cache_key ex_url ex_params)"
    by blast
  from t3 d2 r3
  have a6: "disjoint_tables (snd (fetch_content ex_env ex_html ex_url ex_params False True ex_failed))"
    by blast
  from d1 hk cf ncf a1 a2 a3 a4 d2 r1 a5 r2 a6 show ?thesis by blast
qed

text \<open>
  C7, as stated: every fetch with \<^verbatim>\<open>ignore_bad_request\<close> false whose key is in the
  failure table raises the previously-failed fault. It fails when the key is in the
  success table too and the refresh is not forced: the success entry is returned.
\<close>

theorem previously_failed_counterexample:
  "has_key (bad_request_cache ex_refresh_failed) (cache_key ex_url ex_params)
   \<and> fst (fetch_content ex_env ex_500 ex_url ex_params False False ex_refresh_failed)
       = Inr (Some (Soup (lit ''<html>ok</html>'')))"
proof -
  have "map_of (successful_cache ex_refresh_failed) (cache_key ex_url ex_params)
     = Some \<lparr>s_url = ex_url, s_params = ex_params, s_first_request = 0, s_last_request = 1,
             s_data = JStr (lit ''<html>ok</html>'')\<rparr>"
    by (simp add: ex_refresh_failed_simps ex_fetched_simps)
  then show ?thesis
    by (simp add: fetch_hit has_key_keys_of ex_refresh_failed_simps cached_content_def
          ex_env_parses)
qed

text \<open>
  C7, amended: a fetch with \<^verbatim>\<open>ignore_bad_request\<close> false whose key is in the failure
  table, and which is not answered from the success table (the refresh is forced or the
  key has no success entry), raises the previously-failed fault, wrapped by the
  \<^verbatim>\<open>except Exception\<close> clause, sends no request, sets \<^verbatim>\<open>last_request\<close> of the entry to
  the later of its two clock reads and keeps \<^verbatim>\<open>first_request\<close>.
\<close>

theorem previously_failed_fault:
  assumes "map_of (bad_request_cache st) (cache_key url ps) = Some old"
      and "fr \<or> \<not> has_key (successful_cache st) (cache_key url ps)"
  shows "fst (fetch_content e nw url ps fr False st)
           = Inl (ValueError (lit ''An unexpected error occurred: ''
                    @ (lit ''Request was previously marked as bad: '' @ cache_key url ps)
                    @ lit '' received from '' @ url))
       \<and> sent (snd (fetch_content e nw url ps fr False st)) = sent st
       \<and> map_option f_last_request
            (map_of (bad_request_cache (snd (fetch_content e nw url ps fr False st))) (cache_key url ps))
           = Some (clock e (Suc (ticks st)))
       \<and> map_option f_first_request
            (map_of (bad_request_cache (snd (fetch_content e nw url ps fr False st))) (cache_key url ps))
           = Some (f_first_request old)"
  by (simp add: fetch_previously_failed [OF assms] handle_error_tables handle_error_entry
        logger_simps map_of_update_same)

theorem previously_failed_fault_witness:
  "map_of (bad_request_cache ex_failed) (cache_key ex_url ex_params)
     = Some \<lparr>f_url = ex_url, f_params = ex_params, f_last_request = 0,
             f_error = error_message_of (ClientError (lit ''500, message=Internal Server Error'')) ex_url,
             f_first_request = 1\<rparr>
   \<and> \<not> has_key (successful_cache ex_failed) (cache_key ex_url ex_params)
   \<and> fst (fetch_content ex_env ex_html ex_url ex_params False False ex_failed)
           = Inl (ValueError (lit ''An unexpected error occurred: ''
                    @ (lit ''Request was previously marked as bad: '' @ cache_key ex_url ex_params)
                    @ lit '' received from '' @ ex_url))
   \<and> sent (snd (fetch_content ex_env ex_html ex_url ex_params False False ex_failed)) = sent ex_failed
   \<and> map_option f_first_request
        (map_of (bad_request_cache (snd (fetch_content ex_env ex_html ex_url ex_params False False ex_failed)))
           (cache_key ex_url ex_params))
       = Some 1"
proof -
  have h1: "map_of (bad_request_cache ex_failed) (cache_key ex_url ex_params)
     = Some \<lparr>f_url = ex_url, f_params = ex_params, f_last_request = 0,
             f_error = error_message_of (ClientError (lit ''500, message=Internal Server Error'')) ex_url,
             f_first_request = 1\<rparr>"
    by (simp add: ex_failed_simps)
  have h2: "False \<or> \<not> has_key (successful_cache ex_failed) (cache_key ex_url ex_params)"
    by (simp add: has_key_def ex_failed_simps)
  show ?thesis
    using h1 h2 previously_failed_fault [OF h1 h2, of ex_env ex_html]
    by simp
qed

text \<open>
  C9, as stated: after a first failure with a status such as 500 the failure entry has
  \<^verbatim>\<open>first_request\<close> equal to \<^verbatim>\<open>last_request\<close>. The two fields come from two calls of
  \<^verbatim>\<open>time.time()\<close>, and on a clock that advances between them they differ.
\<close>

theorem status_500_counterexample:
  "\<not> has_key (bad_request_cache ex_start) (cache_key ex_url ex_params)
   \<and> fst (fetch_content ex_env ex_500 ex_url ex_params False False ex_start)
       = Inl (ValueError (error_message_of (ClientError (lit ''500, message=Internal Server Error'')) ex_url))
   \<and> map_option f_last_request (map_of (bad_request_cache ex_failed) (cache_key ex_url ex_params)) = Some 0
   \<and> map_option f_first_request (map_of (bad_request_cache ex_failed) (cache_key ex_url ex_params)) = Some 1"
  by (simp add: ex_failed_eq ex_failed_simps ex_start_simps has_key_def)

text \<open>
  C9, amended: a fetch of a key without a failure entry (\<^verbatim>\<open>ignore_bad_request\<close> false,
  not answered from the success table) whose response has a status from 400 on raises
  the fault of the \<^verbatim>\<open>ClientError\<close> clause, and the failure table then has exactly one
  entry for the key: its \<^verbatim>\<open>last_request\<close> is the first clock read of the call and its
  \<^verbatim>\<open>first_request\<close> the second.
\<close>

theorem failed_status_recorded:
  assumes nobad: "\<not> has_key (bad_request_cache st) (cache_key url ps)"
      and miss: "fr \<or> \<not> has_key (successful_cache st) (cache_key url ps)"
      and bad_status: "400 \<le> status r"
  shows "fst (fetch_content e (Replied r) url ps fr False st)
           = Inl (ValueError (lit ''An error occurred during HTTP request: '' @ status_error r
                    @ lit '' received from '' @ url))
       \<and> filter (\<lambda>p. fst p = cache_key url ps)
            (bad_request_cache (snd (fetch_content e (Replied r) url ps fr False st)))
           = [(cache_key url ps,
               \<lparr>f_url = url, f_params = ps, f_last_request = clock e (ticks st),
                f_error = lit ''An error occurred during HTTP request: '' @ status_error r
                    @ lit '' received from '' @ url,
                f_first_request = clock e (Suc (ticks st))\<rparr>)]"
proof -
  have free: "False \<or> \<not> has_key (bad_request_cache st) (cache_key url ps)"
    using nobad by simp
  have none: "map_of (bad_request_cache st) (cache_key url ps) = None"
    using nobad by (simp add: has_key_def)
  show ?thesis
    using bad_status nobad none
    by (simp add: fetch_miss [OF miss] try_block_network [OF free] caught_raises
          handle_error_and_cache_def time_time_def Let_def save_tables filter_update_fresh)
qed

theorem failed_status_recorded_witness:
  "\<not> has_key (bad_request_cache ex_start) (cache_key ex_url ex_params)
   \<and> \<not> has_key (successful_cache ex_start) (cache_key ex_url ex_params)
   \<and> (400::nat) \<le> 500
   \<and> filter (\<lambda>p. fst p = cache_key ex_url ex_params) (bad_request_cache ex_failed)
       = [(cache_key ex_url ex_params,
           \<lparr>f_url = ex_url, f_params = ex_params, f_last_request = 0,
            f_error = lit ''An error occurred during HTTP request: ''
                @ lit ''500, message=Internal Server Error'' @ lit '' received from '' @ ex_url,
            f_first_request = 1\<rparr>)]"
proof -
  have h1: "\<not> has_key (bad_request_cache ex_start) (cache_key ex_url ex_params)"
    by (simp add: has_key_def ex_start_simps)
  have h2: "False \<or> \<not> has_key (successful_cache ex_start) (cache_key ex_url ex_params)"
    by (simp add: has_key_def ex_start_simps)
  have h3: "400 \<le> status \<lparr>status = 500, status_error = lit ''500, message=Internal Server Error'',
     content_type = lit ''text/plain'', text_body = Inr [],
     json_body = Inl (ClientError (lit ''Attempt to decode JSON with unexpected mimetype''))\<rparr>"
    by simp
  show ?thesis
    using h1 h2 failed_status_recorded [OF h1 h2 h3, of ex_env]
    by (simp add: ex_failed_def ex_500_def ex_env_simps ex_start_simps)
qed

text \<open>
  C3, evaluated: the key succeeds at clock readings 0 and 1, then a forced refresh succeeds
  at readings 2 and 3. The new entry has \<^verbatim>\<open>first_request\<close> 2: the success path builds a
  fresh entry and does not take \<^verbatim>\<open>first_request\<close> from the old one, as the failure
  path does.
\<close>

theorem first_request_reset_on_refresh:
  "map_option s_first_request (map_of (successful_cache ex_fetched) (cache_key ex_url ex_params)) = Some 0
   \<and> fst (fetch_content ex_env ex_html ex_url ex_params True False ex_fetched)
       = Inr (Some (Soup (lit ''<html>ok</html>'')))
   \<and> map_option s_first_request
        (map_of (successful_cache (snd (fetch_content ex_env ex_html ex_url ex_params True False ex_fetched)))
           (cache_key ex_url ex_params)) = Some 2"
proof -
  have miss: "True \<or> \<not> has_key (successful_cache ex_fetched) (cache_key ex_url ex_params)"
    by simp
  have free: "False \<or> \<not> has_key (bad_request_cache ex_fetched) (cache_key ex_url ex_params)"
    by (simp add: has_key_keys_of ex_fetched_simps)
  have block: "try_block ex_env ex_html (cache_key ex_url ex_params) ex_url ex_params False ex_fetched
      = (Inr (Some (Soup (lit ''<html>ok</html>''))),
         store_success ex_env (cache_key ex_url ex_params) ex_url ex_params
           (JStr (lit ''<html>ok</html>''))
           (ex_fetched\<lparr>sent := sent ex_fetched @ [(ex_url, ex_params)]\<rparr>))"
    by (simp add: try_block_network [OF free] ex_html_def ex_html_kind html_text_nonempty
          ex_env_parses)
  show ?thesis
    by (simp add: fetch_reads_entry [OF miss free block] ex_fetched_simps ex_env_simps)
qed

text \<open>
  C2, evaluated: the response is the JSON document \<^verbatim>\<open>"hello"\<close>. The first call returns
  the string; the repeated call finds a \<^verbatim>\<open>str\<close> in the entry, takes it for markup and
  returns a document tree.
\<close>

theorem repeated_fetch_of_json_string:
  "fst (fetch_content ex_env ex_json_string ex_url ex_params False False ex_start)
     = Inr (Some (Plain (JStr (lit ''hello''))))
   \<and> fst (fetch_content ex_env ex_json_string ex_url ex_params False False
            (snd (fetch_content ex_env ex_json_string ex_url ex_params False False ex_start)))
     = Inr (Some (Soup (lit ''hello'')))"
proof -
  have miss: "False \<or> \<not> has_key (successful_cache ex_start) (cache_key ex_url ex_params)"
    by (simp add: has_key_def ex_start_simps)
  have free: "False \<or> \<not> has_key (bad_request_cache ex_start) (cache_key ex_url ex_params)"
    by (simp add: has_key_def ex_start_simps)
  have block: "try_block ex_env ex_json_string (cache_key ex_url ex_params) ex_url ex_params False ex_start
      = (Inr (Some (Plain (JStr (lit ''hello'')))),
         store_success ex_env (cache_key ex_url ex_params) ex_url ex_params (JStr (lit ''hello''))
           (ex_start\<lparr>sent := sent ex_start @ [(ex_url, ex_params)]\<rparr>))"
    by (simp add: try_block_network [OF free] ex_json_string_def ex_json_kind)
  note first = fetch_reads_entry [OF miss free block]
  show ?thesis
    by (simp add: first fetch_hit [OF first(2)] cached_content_def ex_env_parses)
qed











end
